theory Spec2Isabelle
  imports Complex_Main
begin

section \<open>The dashboard client of the email agent (web/script.js)\<close>

text \<open>
  The script is a browser client: it polls a status API, toggles the agent, and renders the
  processed emails and the action log. The development embeds its functions as HOL
  functions over an explicit state (the script's \<open>currentState\<close>, the page elements it
  writes, the console, the HTTP requests it has issued and the timers it has set). How the
  server answers is an input of each operation.
\<close>

subsection \<open>JavaScript values\<close>

text \<open>
  A JavaScript number is an IEEE double. The model reads a finite double as the real number
  it denotes and computes exactly on it; \<open>NaN\<close> and the two infinities are values of their
  own. The two zeros are one value (both are falsy and both print as \<open>0\<close>, and the script
  never divides by a zero).
\<close>

datatype number = Fin real | NaN | PosInf | NegInf

text \<open>
  The values a field of the status payload is modelled to take: absent (\<open>undefined\<close>),
  \<open>null\<close>, a boolean or a number.
\<close>

datatype jsval = JUndefined | JNull | JBool bool | JNum number

text \<open>ToBoolean: what \<open>!v\<close>, \<open>v ? a : b\<close> and \<open>if (v)\<close> test.\<close>

fun truthy :: "jsval \<Rightarrow> bool" where
  "truthy JUndefined = False"
| "truthy JNull = False"
| "truthy (JBool b) = b"
| "truthy (JNum (Fin x)) = (x \<noteq> 0)"
| "truthy (JNum NaN) = False"
| "truthy (JNum PosInf) = True"
| "truthy (JNum NegInf) = True"

text \<open>ToNumber, applied by the arithmetic operators to their operands.\<close>

fun ToNumber :: "jsval \<Rightarrow> number" where
  "ToNumber JUndefined = NaN"
| "ToNumber JNull = Fin 0"
| "ToNumber (JBool b) = Fin (if b then 1 else 0)"
| "ToNumber (JNum n) = n"

text \<open>
  The comparison \<open>a >= b\<close> of two numbers: false as soon as one of them is \<open>NaN\<close>.
\<close>

fun num_ge :: "number \<Rightarrow> number \<Rightarrow> bool" where
  "num_ge NaN _ = False"
| "num_ge _ NaN = False"
| "num_ge PosInf _ = True"
| "num_ge _ NegInf = True"
| "num_ge NegInf _ = False"
| "num_ge _ PosInf = False"
| "num_ge (Fin x) (Fin y) = (y \<le> x)"

text \<open>\<open>a < b\<close> of two numbers, false as well when one of them is \<open>NaN\<close>.\<close>

fun num_lt :: "number \<Rightarrow> number \<Rightarrow> bool" where
  "num_lt NaN _ = False"
| "num_lt _ NaN = False"
| "num_lt PosInf _ = False"
| "num_lt _ NegInf = False"
| "num_lt NegInf _ = True"
| "num_lt _ PosInf = True"
| "num_lt (Fin x) (Fin y) = (x < y)"

text \<open>
  \<open>a / c\<close> and \<open>a % c\<close> for a positive literal \<open>c\<close>, the only divisors of the script.
  The remainder has the sign of the dividend (the quotient is truncated towards zero), and
  the remainder of an infinity is \<open>NaN\<close>.
\<close>

fun num_div :: "number \<Rightarrow> real \<Rightarrow> number" where
  "num_div (Fin x) c = Fin (x / c)"
| "num_div NaN c = NaN"
| "num_div PosInf c = PosInf"
| "num_div NegInf c = NegInf"

definition trunc :: "real \<Rightarrow> int" where
  "trunc x = (if 0 \<le> x then \<lfloor>x\<rfloor> else \<lceil>x\<rceil>)"

fun num_rem :: "number \<Rightarrow> real \<Rightarrow> number" where
  "num_rem (Fin x) c = Fin (x - c * of_int (trunc (x / c)))"
| "num_rem NaN c = NaN"
| "num_rem PosInf c = NaN"
| "num_rem NegInf c = NaN"

text \<open>
  \<open>Math.floor\<close> returns a number that is whole, \<open>NaN\<close> or infinite; the script only prints
  it, so the model keeps the whole number as an \<open>int\<close>.
\<close>

datatype whole = Whole int | WNaN | WPosInf | WNegInf

fun Math_floor :: "number \<Rightarrow> whole" where
  "Math_floor (Fin x) = Whole \<lfloor>x\<rfloor>"
| "Math_floor NaN = WNaN"
| "Math_floor PosInf = WPosInf"
| "Math_floor NegInf = WNegInf"

subsection \<open>Strings\<close>

text \<open>
  A whole number inside a template literal prints in decimal. (From \<open>10^21\<close> on the engine
  prints an exponent; uptimes, counters and identifiers of that size are outside the model.)
\<close>

fun show_nat :: "nat \<Rightarrow> string" where
  "show_nat n =
     (if n < 10 then [''0123456789'' ! n]
      else show_nat (n div 10) @ [''0123456789'' ! (n mod 10)])"

definition show_int :: "int \<Rightarrow> string" where
  "show_int i = (if i < 0 then ''-'' @ show_nat (nat (- i)) else show_nat (nat i))"

fun show_whole :: "whole \<Rightarrow> string" where
  "show_whole (Whole i) = show_int i"
| "show_whole WNaN = ''NaN''"
| "show_whole WPosInf = ''Infinity''"
| "show_whole WNegInf = ''-Infinity''"

subsection \<open>Pure helpers of the script\<close>

text \<open>
  \<^verbatim>\<open>function formatUptime(seconds) {
    if (!seconds) return "0s";
    const h = Math.floor(seconds / 3600);
    const m = Math.floor((seconds % 3600) / 60);
    const s = Math.floor(seconds % 60);
    return `${h}h ${m}m ${s}s`; }\<close>
\<close>

definition formatUptime :: "jsval \<Rightarrow> string" where
  "formatUptime seconds =
     (if \<not> truthy seconds then ''0s''
      else
        let h = Math_floor (num_div (ToNumber seconds) 3600);
            m = Math_floor (num_div (num_rem (ToNumber seconds) 3600) 60);
            s = Math_floor (num_rem (ToNumber seconds) 60)
        in show_whole h @ ''h '' @ show_whole m @ ''m '' @ show_whole s @ ''s'')"

text \<open>
  \<^verbatim>\<open>function getPriorityClass(score) {
    if (score >= 80) return 'high';
    if (score >= 50) return 'medium';
    return 'low'; }\<close>
\<close>

definition getPriorityClass :: "number \<Rightarrow> string" where
  "getPriorityClass score =
     (if num_ge score (Fin 80) then ''high''
      else if num_ge score (Fin 50) then ''medium''
      else ''low'')"

subsection \<open>Payloads of the API\<close>

text \<open>
  Modelled from the spec: the types of the payloads of the backend API, which is not part
  of the script. \<open>GET /control/status\<close> answers \<open>{ is_running, uptime }\<close>, \<open>GET /stats\<close>
  three counters, \<open>GET /emails\<close> an array of email summaries (id: int, subject and sender:
  string, priority score: number, priority label: optional string, task status and next
  action: string) and \<open>GET /logs\<close> an array of log entries. The two fields of the status
  payload are kept dynamically typed, since the script tests them for truthiness.
\<close>

record status_payload =
  is_running :: jsval
  uptime :: jsval

record stats_payload =
  total_emails :: int
  total_actions :: int
  pending_retries :: int

record email =
  e_id :: int
  subject :: string
  sender :: string
  priority_score :: number
  priority_label :: "string option"
  task_status :: string
  next_action :: string

record log_entry =
  created_at :: string
  email_id :: int
  intent :: string
  agent_action :: string

text \<open>
  How one request ends: \<open>fetch\<close> rejects (no connection), \<open>res.json()\<close> rejects (the body
  is not JSON), the body is JSON but \<open>null\<close> (or, where a list is expected, not an array),
  so that the first property access or method call on it throws a \<open>TypeError\<close>, or the
  body has the expected shape.
\<close>

datatype 'a response = Rejected | NotJson | WrongShape | Body 'a

datatype js_error = FetchRejected | JsonRejected | TypeError

fun body_of :: "'a response \<Rightarrow> js_error + 'a" where
  "body_of Rejected = Inl FetchRejected"
| "body_of NotJson = Inl JsonRejected"
| "body_of WrongShape = Inl TypeError"
| "body_of (Body x) = Inr x"

text \<open>
  The answers of the server during one operation. A \<open>POST\<close> to a control endpoint has no
  body that the script reads: it settles or it rejects.
\<close>

record server =
  status_r :: "status_payload response"
  stats_r :: "stats_payload response"
  emails_r :: "email list response"
  logs_r :: "log_entry list response"
  post_rejects :: bool

subsection \<open>The state\<close>

text \<open>
  \<^verbatim>\<open>let currentState = { isRunning: false, stats: {}, emails: [], logs: [] };\<close>
\<close>

record current_state =
  isRunning :: jsval
  stats :: "(string \<times> jsval) list"
  emails :: "email list"
  logs :: "log_entry list"

definition initial_currentState :: current_state where
  "initial_currentState = \<lparr>isRunning = JBool False, stats = [], emails = [], logs = []\<rparr>"

text \<open>
  An element of the page, with the properties the script reads and writes. The page markup
  is not part of the script: the elements that the script looks up by a fixed id are
  fields of the state (the page has them, and they are distinct elements that do not
  contain one another), the \<open>nav li\<close> items and the \<open>.page\<close> sections are two lists, and
  \<open>byId\<close> is the document's index from an id to the element that carries it.
\<close>

record element =
  textContent :: string
  innerHTML :: string
  classList :: "string list"
  dataset_target :: "string option"

datatype node = NavNode nat | PageNode nat | ToggleBtnNode | StatusIndicatorNode | OtherNode

datatype http_method = GET | POST

datatype callback = CbFetchStatus | CbFetchStats

datatype timer = Timeout callback nat | Interval callback nat

record state =
  currentState :: current_state
  toggleBtn :: element
  statusText :: element
  statusIndicator :: element
  pageTitle :: element
  stat_emails :: element
  stat_actions :: element
  stat_retries :: element
  stat_uptime :: element
  emails_table_body :: element
  logs_list :: element
  navItems :: "element list"
  pages :: "element list"
  byId :: "string \<Rightarrow> node option"
  console :: "(string \<times> js_error) list"
  requests :: "(http_method \<times> string) list"
  timers :: "timer list"

text \<open>
  A function of the script ends normally or throws; what it did to the state before it
  threw stays done.
\<close>

datatype completion = Normal state | Throw js_error state

fun state_of :: "completion \<Rightarrow> state" where
  "state_of (Normal s) = s"
| "state_of (Throw e s) = s"

text \<open>\<open>try { body } catch (e) { handler }\<close>\<close>

fun try_catch :: "completion \<Rightarrow> (js_error \<Rightarrow> state \<Rightarrow> completion) \<Rightarrow> completion" where
  "try_catch (Normal s) handler = Normal s"
| "try_catch (Throw e s) handler = handler e s"

text \<open>
  A call of an async function that the caller does not await: the caller goes on with the
  state the call leaves, also when the promise is rejected.
\<close>

definition detached :: "completion \<Rightarrow> state" where
  "detached c = state_of c"

definition console_error :: "string \<Rightarrow> js_error \<Rightarrow> state \<Rightarrow> state" where
  "console_error msg e s = s\<lparr>console := console s @ [(msg, e)]\<rparr>"

definition API_URL :: string where
  "API_URL = ''http://localhost:8000''"

text \<open>\<open>fetch(url, { method })\<close> issues the request; the trace of requests records it.\<close>

definition fetch :: "http_method \<Rightarrow> string \<Rightarrow> state \<Rightarrow> state" where
  "fetch m u s = s\<lparr>requests := requests s @ [(m, u)]\<rparr>"

definition setTimeout :: "callback \<Rightarrow> nat \<Rightarrow> state \<Rightarrow> state" where
  "setTimeout cb ms s = s\<lparr>timers := timers s @ [Timeout cb ms]\<rparr>"

definition setInterval :: "callback \<Rightarrow> nat \<Rightarrow> state \<Rightarrow> state" where
  "setInterval cb ms s = s\<lparr>timers := timers s @ [Interval cb ms]\<rparr>"

subsection \<open>Class lists\<close>

text \<open>
  A \<open>classList\<close> is an ordered set of tokens. \<open>add\<close> appends a token that is not there,
  \<open>remove\<close> deletes it, and \<open>replace(a, b)\<close> does nothing when \<open>a\<close> is absent and
  otherwise puts \<open>b\<close> at the first place of either token and drops the other places.
\<close>

definition classList_add :: "string \<Rightarrow> element \<Rightarrow> element" where
  "classList_add c el =
     el\<lparr>classList := (if c \<in> set (classList el) then classList el else classList el @ [c])\<rparr>"

definition classList_remove :: "string \<Rightarrow> element \<Rightarrow> element" where
  "classList_remove c el = el\<lparr>classList := removeAll c (classList el)\<rparr>"

fun replace_token :: "string \<Rightarrow> string \<Rightarrow> string list \<Rightarrow> string list" where
  "replace_token a b [] = []"
| "replace_token a b (x # xs) =
     (if x = a \<or> x = b then b # filter (\<lambda>y. y \<noteq> a \<and> y \<noteq> b) xs
      else x # replace_token a b xs)"

definition classList_replace :: "string \<Rightarrow> string \<Rightarrow> element \<Rightarrow> element" where
  "classList_replace a b el =
     el\<lparr>classList := (if a \<in> set (classList el) then replace_token a b (classList el)
                       else classList el)\<rparr>"

definition has_class :: "string \<Rightarrow> element \<Rightarrow> bool" where
  "has_class c el = (c \<in> set (classList el))"

subsection \<open>Rendering\<close>

text \<open>
  \<^verbatim>\<open>function updateStatus(isRunning, uptime) {
    currentState.isRunning = isRunning;
    if (isRunning) {
        statusText.textContent = `Running (${formatUptime(uptime)})`;
        statusIndicator.classList.add('running');
        toggleBtn.textContent = "Stop Agent";
        toggleBtn.classList.replace('primary', 'secondary');
    } else {
        statusText.textContent = "Stopped";
        statusIndicator.classList.remove('running');
        toggleBtn.textContent = "Start Agent";
        toggleBtn.classList.replace('secondary', 'primary');
    }
    document.getElementById('stat-uptime').textContent = formatUptime(uptime); }\<close>
\<close>

definition updateStatus :: "jsval \<Rightarrow> jsval \<Rightarrow> state \<Rightarrow> state" where
  "updateStatus running up s =
     (let s1 = s\<lparr>currentState := (currentState s)\<lparr>isRunning := running\<rparr>\<rparr>;
          s2 =
            (if truthy running then
               s1\<lparr>statusText := (statusText s1)\<lparr>textContent := ''Running ('' @ formatUptime up @ '')''\<rparr>,
                  statusIndicator := classList_add ''running'' (statusIndicator s1),
                  toggleBtn := classList_replace ''primary'' ''secondary''
                                 ((toggleBtn s1)\<lparr>textContent := ''Stop Agent''\<rparr>)\<rparr>
             else
               s1\<lparr>statusText := (statusText s1)\<lparr>textContent := ''Stopped''\<rparr>,
                  statusIndicator := classList_remove ''running'' (statusIndicator s1),
                  toggleBtn := classList_replace ''secondary'' ''primary''
                                 ((toggleBtn s1)\<lparr>textContent := ''Start Agent''\<rparr>)\<rparr>)
      in s2\<lparr>stat_uptime := (stat_uptime s2)\<lparr>textContent := formatUptime up\<rparr>\<rparr>)"

definition newline :: string where
  "newline = [CHR 0x0A]"

definition spaces :: "nat \<Rightarrow> string" where
  "spaces n = replicate n CHR '' ''"

text \<open>\<open>a || b\<close> on an optional string: absent and empty are falsy.\<close>

fun or_else :: "string option \<Rightarrow> string \<Rightarrow> string" where
  "or_else None d = d"
| "or_else (Some v) d = (if v = [] then d else v)"

text \<open>\<open>str.substring(0, n)\<close>\<close>

definition substring0 :: "nat \<Rightarrow> string \<Rightarrow> string" where
  "substring0 n str = take n str"

text \<open>The subject cell of a row: \<^verbatim>\<open><td>${e.subject.substring(0, 40)}...</td>\<close>\<close>

definition subject_cell :: "email \<Rightarrow> string" where
  "subject_cell e = ''<td>'' @ substring0 40 (subject e) @ ''...'' @ ''</td>''"

text \<open>
  One row of the emails table: the template literal of \<open>renderEmails\<close>, with its line
  breaks and indentation.
\<close>

definition email_row :: "email \<Rightarrow> string" where
  \<open>email_row e =
     newline @ spaces 8 @ ''<tr>'' @
     newline @ spaces 12 @ ''<td>#'' @ show_int (e_id e) @ ''</td>'' @
     newline @ spaces 12 @ subject_cell e @
     newline @ spaces 12 @ ''<td>'' @ sender e @ ''</td>'' @
     newline @ spaces 12 @ ''<td><span class="tag '' @ getPriorityClass (priority_score e) @ ''">'' @
       or_else (priority_label e) ''Unknown'' @ ''</span></td>'' @
     newline @ spaces 12 @ ''<td>'' @ task_status e @ ''</td>'' @
     newline @ spaces 12 @ ''<td>'' @ next_action e @ ''</td>'' @
     newline @ spaces 8 @ ''</tr>'' @
     newline @ spaces 4\<close>

text \<open>
  \<^verbatim>\<open>function renderEmails(emails) {
    const tbody = document.getElementById('emails-table-body');
    tbody.innerHTML = emails.map(e => `...`).join(''); }\<close>
\<close>

definition renderEmails :: "email list \<Rightarrow> state \<Rightarrow> state" where
  "renderEmails es s =
     s\<lparr>emails_table_body := (emails_table_body s)\<lparr>innerHTML := concat (map email_row es)\<rparr>\<rparr>"

definition log_item :: "log_entry \<Rightarrow> string" where
  \<open>log_item l =
     newline @ spaces 8 @ ''<div class="log-item">'' @
     newline @ spaces 12 @ ''<div class="log-header">'' @
     newline @ spaces 16 @ ''<span>'' @ created_at l @ ''</span>'' @
     newline @ spaces 16 @ ''<span>ID: '' @ show_int (email_id l) @ ''</span>'' @
     newline @ spaces 12 @ ''</div>'' @
     newline @ spaces 12 @ ''<div class="log-content">'' @
     newline @ spaces 16 @ ''<strong>Intent:</strong> '' @ intent l @ '' <br>'' @
     newline @ spaces 16 @ ''<strong>Action:</strong> '' @ agent_action l @
     newline @ spaces 12 @ ''</div>'' @
     newline @ spaces 8 @ ''</div>'' @
     newline @ spaces 4\<close>

definition renderLogs :: "log_entry list \<Rightarrow> state \<Rightarrow> state" where
  "renderLogs ls s =
     s\<lparr>logs_list := (logs_list s)\<lparr>innerHTML := concat (map log_item ls)\<rparr>\<rparr>"

subsection \<open>API calls\<close>

text \<open>
  An async function is modelled by what it does to the state from its call to its last
  statement, given how its request ends, with no other callback running while the request
  is pending. The only read of \<open>currentState\<close> by such a function, the flag in
  \<open>toggleAgent\<close>, comes before the request is sent.

  \<^verbatim>\<open>async function fetchStatus() {
    try {
        const res = await fetch(`${API_URL}/control/status`);
        const data = await res.json();
        updateStatus(data.is_running, data.uptime);
    } catch (e) {
        console.error("Status fetch failed", e);
        updateStatus(false, 0);
    } }\<close>
\<close>

definition fetchStatus_try :: "server \<Rightarrow> state \<Rightarrow> completion" where
  "fetchStatus_try srv s =
     (let s1 = fetch GET (API_URL @ ''/control/status'') s in
      case body_of (status_r srv) of
        Inl e \<Rightarrow> Throw e s1
      | Inr d \<Rightarrow> Normal (updateStatus (is_running d) (uptime d) s1))"

definition fetchStatus :: "server \<Rightarrow> state \<Rightarrow> completion" where
  "fetchStatus srv s =
     try_catch (fetchStatus_try srv s)
       (\<lambda>e s'. Normal (updateStatus (JBool False) (JNum (Fin 0))
                         (console_error ''Status fetch failed'' e s')))"

text \<open>
  \<^verbatim>\<open>async function fetchStats() {
    try {
        const res = await fetch(`${API_URL}/stats`);
        const data = await res.json();
        document.getElementById('stat-emails').textContent = data.total_emails;
        document.getElementById('stat-actions').textContent = data.total_actions;
        document.getElementById('stat-retries').textContent = data.pending_retries;
    } catch (e) { console.error("Stats fetch failed", e); } }\<close>
\<close>

definition fetchStats :: "server \<Rightarrow> state \<Rightarrow> completion" where
  "fetchStats srv s =
     try_catch
       (let s1 = fetch GET (API_URL @ ''/stats'') s in
        case body_of (stats_r srv) of
          Inl e \<Rightarrow> Throw e s1
        | Inr d \<Rightarrow>
            Normal (s1\<lparr>stat_emails := (stat_emails s1)\<lparr>textContent := show_int (total_emails d)\<rparr>,
                       stat_actions := (stat_actions s1)\<lparr>textContent := show_int (total_actions d)\<rparr>,
                       stat_retries := (stat_retries s1)\<lparr>textContent := show_int (pending_retries d)\<rparr>\<rparr>))
       (\<lambda>e s'. Normal (console_error ''Stats fetch failed'' e s'))"

text \<open>
  \<open>fetchEmails\<close> and \<open>fetchLogs\<close> are declared with no parameter, so the arguments of a
  call (\<open>args\<close>) are not read.

  \<^verbatim>\<open>async function fetchEmails() {
    try {
        const res = await fetch(`${API_URL}/emails?limit=50`);
        const data = await res.json();
        renderEmails(data);
    } catch (e) { console.error("Emails fetch failed", e); } }\<close>
\<close>

definition fetchEmails :: "jsval list \<Rightarrow> server \<Rightarrow> state \<Rightarrow> completion" where
  "fetchEmails args srv s =
     try_catch
       (let s1 = fetch GET (API_URL @ ''/emails?limit=50'') s in
        case body_of (emails_r srv) of
          Inl e \<Rightarrow> Throw e s1
        | Inr d \<Rightarrow> Normal (renderEmails d s1))
       (\<lambda>e s'. Normal (console_error ''Emails fetch failed'' e s'))"

definition fetchLogs :: "jsval list \<Rightarrow> server \<Rightarrow> state \<Rightarrow> completion" where
  "fetchLogs args srv s =
     try_catch
       (let s1 = fetch GET (API_URL @ ''/logs?limit=50'') s in
        case body_of (logs_r srv) of
          Inl e \<Rightarrow> Throw e s1
        | Inr d \<Rightarrow> Normal (renderLogs d s1))
       (\<lambda>e s'. Normal (console_error ''Logs fetch failed'' e s'))"

text \<open>
  \<^verbatim>\<open>async function toggleAgent() {
    const endpoint = currentState.isRunning ? '/control/stop' : '/control/start';
    try {
        await fetch(`${API_URL}${endpoint}`, { method: 'POST' });
        setTimeout(fetchStatus, 500);
    } catch (e) { console.error("Toggle failed", e); } }\<close>
\<close>

definition toggleAgent :: "server \<Rightarrow> state \<Rightarrow> completion" where
  "toggleAgent srv s =
     (let endpoint = (if truthy (isRunning (currentState s)) then ''/control/stop''
                      else ''/control/start'') in
      try_catch
        (let s1 = fetch POST (API_URL @ endpoint) s in
         if post_rejects srv then Throw FetchRejected s1
         else Normal (setTimeout CbFetchStatus 500 s1))
        (\<lambda>e s'. Normal (console_error ''Toggle failed'' e s')))"

subsection \<open>Event listeners\<close>

text \<open>
  \<open>document.getElementById(target).classList.add('active')\<close>: the class is added to the
  element that carries the id, whichever it is. The class list of an \<open>OtherNode\<close> is not
  part of the state, as the script touches it nowhere else; an index outside its list names
  no element, and nothing changes.
\<close>

fun node_add_class :: "string \<Rightarrow> node \<Rightarrow> state \<Rightarrow> state" where
  "node_add_class c (NavNode k) s = s\<lparr>navItems := (navItems s)[k := classList_add c (navItems s ! k)]\<rparr>"
| "node_add_class c (PageNode k) s = s\<lparr>pages := (pages s)[k := classList_add c (pages s ! k)]\<rparr>"
| "node_add_class c ToggleBtnNode s = s\<lparr>toggleBtn := classList_add c (toggleBtn s)\<rparr>"
| "node_add_class c StatusIndicatorNode s = s\<lparr>statusIndicator := classList_add c (statusIndicator s)\<rparr>"
| "node_add_class c OtherNode s = s"

text \<open>
  \<open>getElementById\<close> takes a string: an absent \<open>data-target\<close> is looked up as the id
  \<open>undefined\<close>.
\<close>

fun id_string :: "string option \<Rightarrow> string" where
  "id_string None = ''undefined''"
| "id_string (Some t) = t"

text \<open>
  \<^verbatim>\<open>navItems.forEach(item => {
    item.addEventListener('click', () => {
        navItems.forEach(n => n.classList.remove('active'));
        item.classList.add('active');
        const target = item.dataset.target;
        pages.forEach(p => p.classList.remove('active'));
        document.getElementById(target).classList.add('active');
        pageTitle.textContent = item.textContent;
        if (target === 'emails') fetchEmails();
        if (target === 'logs') fetchLogs();
    }); });\<close>
  \<open>navClick i\<close> is a click on the \<open>i\<close>-th item. Only the items of \<open>navItems\<close> have the
  listener: a click elsewhere runs nothing.
\<close>

definition navClick :: "nat \<Rightarrow> server \<Rightarrow> state \<Rightarrow> completion" where
  "navClick i srv s =
     (if length (navItems s) \<le> i then Normal s
      else
        let s1 = s\<lparr>navItems := map (classList_remove ''active'') (navItems s)\<rparr>;
            s2 = s1\<lparr>navItems := (navItems s1)[i := classList_add ''active'' (navItems s1 ! i)]\<rparr>;
            target = dataset_target (navItems s2 ! i);
            s3 = s2\<lparr>pages := map (classList_remove ''active'') (pages s2)\<rparr>
        in case byId s3 (id_string target) of
             None \<Rightarrow> Throw TypeError s3
           | Some n \<Rightarrow>
               let s4 = node_add_class ''active'' n s3;
                   s5 = s4\<lparr>pageTitle := (pageTitle s4)\<lparr>textContent := textContent (navItems s4 ! i)\<rparr>\<rparr>;
                   s6 = (if target = Some ''emails'' then detached (fetchEmails [] srv s5) else s5);
                   s7 = (if target = Some ''logs'' then detached (fetchLogs [] srv s6) else s6)
               in Normal s7)"

text \<open>
  A sequence of clicks, each with the answers of the server at that time; the result is how
  the last click ends. An exception that leaves a listener ends that listener only: the
  next click finds the state it left.
\<close>

fun navClicks :: "(nat \<times> server) list \<Rightarrow> state \<Rightarrow> completion" where
  "navClicks [] s = Normal s"
| "navClicks [(i, srv)] s = navClick i srv s"
| "navClicks ((i, srv) # c # cs) s = navClicks (c # cs) (state_of (navClick i srv s))"

text \<open>
  \<^verbatim>\<open>refreshBtn.addEventListener('click', () => {
    fetchStats(); fetchEmails(); fetchLogs(); });\<close>
\<close>

definition refreshClick :: "server \<Rightarrow> state \<Rightarrow> completion" where
  "refreshClick srv s =
     (let s1 = detached (fetchStats srv s);
          s2 = detached (fetchEmails [] srv s1);
          s3 = detached (fetchLogs [] srv s2)
      in Normal s3)"

text \<open>
  \<^verbatim>\<open>document.addEventListener('DOMContentLoaded', () => {
    fetchStatus(); fetchStats();
    setInterval(fetchStatus, 2000); setInterval(fetchStats, 5000); });\<close>
\<close>

definition domContentLoaded :: "server \<Rightarrow> state \<Rightarrow> completion" where
  "domContentLoaded srv s =
     (let s1 = detached (fetchStatus srv s);
          s2 = detached (fetchStats srv s1)
      in Normal (setInterval CbFetchStats 5000 (setInterval CbFetchStatus 2000 s2)))"

text \<open>
  Everything the script can be made to do: its functions and its listeners. A timer that
  fires is a call of its callback.
\<close>

datatype operation =
    OpFetchStatus
  | OpFetchStats
  | OpFetchEmails "jsval list"
  | OpFetchLogs "jsval list"
  | OpToggleAgent
  | OpNavClick nat
  | OpRefreshClick
  | OpDomContentLoaded
  | OpUpdateStatus jsval jsval

fun run :: "operation \<times> server \<Rightarrow> state \<Rightarrow> state" where
  "run (OpFetchStatus, srv) s = state_of (fetchStatus srv s)"
| "run (OpFetchStats, srv) s = state_of (fetchStats srv s)"
| "run (OpFetchEmails args, srv) s = state_of (fetchEmails args srv s)"
| "run (OpFetchLogs args, srv) s = state_of (fetchLogs args srv s)"
| "run (OpToggleAgent, srv) s = state_of (toggleAgent srv s)"
| "run (OpNavClick i, srv) s = state_of (navClick i srv s)"
| "run (OpRefreshClick, srv) s = state_of (refreshClick srv s)"
| "run (OpDomContentLoaded, srv) s = state_of (domContentLoaded srv s)"
| "run (OpUpdateStatus running up, srv) s = updateStatus running up s"

definition run_all :: "(operation \<times> server) list \<Rightarrow> state \<Rightarrow> state" where
  "run_all ops s = fold run ops s"

text \<open>The operations whose code calls \<open>updateStatus\<close>, or is it.\<close>

fun calls_updateStatus :: "operation \<Rightarrow> bool" where
  "calls_updateStatus OpFetchStatus = True"
| "calls_updateStatus OpDomContentLoaded = True"
| "calls_updateStatus (OpUpdateStatus running up) = True"
| "calls_updateStatus _ = False"

subsection \<open>Predicates of the claims\<close>

text \<open>The number of elements of a list that carry the class \<open>active\<close>.\<close>

definition active_count :: "element list \<Rightarrow> nat" where
  "active_count els = length (filter (has_class ''active'') els)"

text \<open>
  The markup that navigation relies on: the \<open>data-target\<close> of every nav item is the id of
  one of the \<open>.page\<close> sections.
\<close>

fun targets_page :: "state \<Rightarrow> element \<Rightarrow> bool" where
  "targets_page s item =
     (case dataset_target item of
        None \<Rightarrow> False
      | Some t \<Rightarrow>
          (case byId s t of
             Some (PageNode k) \<Rightarrow> k < length (pages s)
           | _ \<Rightarrow> False))"

definition nav_wf :: "state \<Rightarrow> bool" where
  "nav_wf s = list_all (targets_page s) (navItems s)"

text \<open>The three fields of \<open>currentState\<close> that cache what was fetched.\<close>

definition cache_fields :: "state \<Rightarrow> (string \<times> jsval) list \<times> email list \<times> log_entry list" where
  "cache_fields s = (stats (currentState s), emails (currentState s), logs (currentState s))"

text \<open>The try block of a fetch function throws: the fetch fails.\<close>

fun failed :: "'a response \<Rightarrow> bool" where
  "failed (Body x) = False"
| "failed _ = True"

subsection \<open>An example page and two servers\<close>

text \<open>
  A page with three nav items and their three sections, a server that is down and a server
  that answers: the concrete inputs at which the theorems below are instantiated.
\<close>

definition elem :: "string \<Rightarrow> string list \<Rightarrow> string option \<Rightarrow> element" where
  "elem txt cls tg = \<lparr>textContent = txt, innerHTML = [], classList = cls, dataset_target = tg\<rparr>"

definition page_index :: "string \<Rightarrow> node option" where
  "page_index i =
     (if i = ''dashboard'' then Some (PageNode 0)
      else if i = ''emails'' then Some (PageNode 1)
      else if i = ''logs'' then Some (PageNode 2)
      else if i = ''toggle-btn'' then Some ToggleBtnNode
      else if i = ''status-indicator'' then Some StatusIndicatorNode
      else if i = ''page-title'' then Some OtherNode
      else None)"

definition example_page :: state where
  "example_page =
     \<lparr>currentState = initial_currentState,
      toggleBtn = elem ''Start Agent'' [''btn'', ''primary''] None,
      statusText = elem ''Stopped'' [] None,
      statusIndicator = elem [] [''indicator''] None,
      pageTitle = elem ''Dashboard'' [] None,
      stat_emails = elem ''0'' [] None,
      stat_actions = elem ''0'' [] None,
      stat_retries = elem ''0'' [] None,
      stat_uptime = elem ''0s'' [] None,
      emails_table_body = elem [] [] None,
      logs_list = elem [] [] None,
      navItems = [elem ''Dashboard'' [''active''] (Some ''dashboard''),
                  elem ''Emails'' [] (Some ''emails''),
                  elem ''Logs'' [] (Some ''logs'')],
      pages = [elem [] [''page'', ''active''] None,
               elem [] [''page''] None,
               elem [] [''page''] None],
      byId = page_index,
      console = [],
      requests = [],
      timers = []\<rparr>"

definition server_down :: server where
  "server_down = \<lparr>status_r = Rejected, stats_r = Rejected, emails_r = Rejected,
                   logs_r = Rejected, post_rejects = True\<rparr>"

definition example_email :: email where
  "example_email = \<lparr>e_id = 7, subject = ''Invoice'', sender = ''bob@example.org'',
                     priority_score = Fin 85, priority_label = None,
                     task_status = ''done'', next_action = ''archive''\<rparr>"

definition server_up :: server where
  "server_up = \<lparr>status_r = Body \<lparr>is_running = JBool True, uptime = JNum (Fin 3661)\<rparr>,
                 stats_r = Body \<lparr>total_emails = 3, total_actions = 2, pending_retries = 0\<rparr>,
                 emails_r = Body [example_email],
                 logs_r = Body [],
                 post_rejects = False\<rparr>"

definition example_ops :: "(operation \<times> server) list" where
  "example_ops = [(OpDomContentLoaded, server_up), (OpNavClick 1, server_up),
                  (OpToggleAgent, server_up), (OpFetchStatus, server_down),
                  (OpRefreshClick, server_up)]"

definition example_clicks :: "(nat \<times> server) list" where
  "example_clicks = [(1, server_up), (2, server_down), (1, server_down)]"

section \<open>Properties\<close>

subsection \<open>Priority classes\<close>

text \<open>
  C1. For every number \<open>score\<close>, \<open>getPriorityClass\<close> returns \<open>high\<close> when \<open>score >= 80\<close>,
  \<open>medium\<close> when \<open>50 <= score < 80\<close> and \<open>low\<close> when \<open>score < 50\<close>, the comparisons being
  JavaScript's; at the boundaries, 80 gives \<open>high\<close>, 79 and 50 give \<open>medium\<close>, 49 gives
  \<open>low\<close>.
\<close>

theorem getPriorityClass_thresholds:
  "(num_ge score (Fin 80) \<longrightarrow> getPriorityClass score = ''high'')
   \<and> (num_ge score (Fin 50) \<and> num_lt score (Fin 80) \<longrightarrow> getPriorityClass score = ''medium'')
   \<and> (num_lt score (Fin 50) \<longrightarrow> getPriorityClass score = ''low'')
   \<and> getPriorityClass (Fin 80) = ''high''
   \<and> getPriorityClass (Fin 79) = ''medium''
   \<and> getPriorityClass (Fin 50) = ''medium''
   \<and> getPriorityClass (Fin 49) = ''low''"
  by (cases score) (simp_all add: getPriorityClass_def)

theorem getPriorityClass_thresholds_witness:
  "num_ge (Fin 95) (Fin 80) \<and> getPriorityClass (Fin 95) = ''high''
   \<and> num_ge (Fin 64.5) (Fin 50) \<and> num_lt (Fin 64.5) (Fin 80)
   \<and> getPriorityClass (Fin 64.5) = ''medium''
   \<and> num_lt NegInf (Fin 50) \<and> getPriorityClass NegInf = ''low''"
  using getPriorityClass_thresholds [of "Fin 95"] getPriorityClass_thresholds [of "Fin 64.5"]
    getPriorityClass_thresholds [of NegInf]
  by simp

subsection \<open>Uptime\<close>

text \<open>
  C2. \<open>formatUptime\<close> gives \<open>0s\<close> at 0, \<open>0h 0m 59s\<close> at 59 and \<open>1h 1m 1s\<close> at 3661, and
  \<open>0s\<close> at every falsy value (\<open>undefined\<close>, \<open>null\<close>, \<open>false\<close>, zero and \<open>NaN\<close>).
\<close>

theorem formatUptime_examples:
  "formatUptime (JNum (Fin 0)) = ''0s''
   \<and> formatUptime (JNum (Fin 59)) = ''0h 0m 59s''
   \<and> formatUptime (JNum (Fin 3661)) = ''1h 1m 1s''
   \<and> (\<forall>v. \<not> truthy v \<longrightarrow> formatUptime v = ''0s'')"
  by (simp add: formatUptime_def show_int_def trunc_def)

theorem formatUptime_examples_witness:
  "\<not> truthy JUndefined \<and> formatUptime JUndefined = ''0s''
   \<and> \<not> truthy (JNum NaN) \<and> formatUptime (JNum NaN) = ''0s''"
  using formatUptime_examples by simp

subsection \<open>A failed status fetch\<close>

lemma failed_body_of: "failed r \<Longrightarrow> \<exists>e. body_of r = Inl e"
  by (cases r) simp_all

text \<open>
  C3. Whatever the state before, when the status request fails (the fetch rejects, the body
  is not JSON, or the body is \<open>null\<close>), \<open>fetchStatus\<close> ends normally: the error is caught
  and logged, the status text is \<open>Stopped\<close>, the toggle button reads \<open>Start Agent\<close> and
  \<open>currentState.isRunning\<close> is \<open>false\<close>.
\<close>

theorem fetchStatus_failure_stopped:
  assumes "failed (status_r srv)"
  shows "\<exists>s'. fetchStatus srv s = Normal s'
           \<and> textContent (statusText s') = ''Stopped''
           \<and> textContent (toggleBtn s') = ''Start Agent''
           \<and> isRunning (currentState s') = JBool False
           \<and> (\<exists>e. console s' = console s @ [(''Status fetch failed'', e)])"
proof -
  from assms obtain e where e: "body_of (status_r srv) = Inl e"
    using failed_body_of by blast
  show ?thesis
    by (simp add: fetchStatus_def fetchStatus_try_def e updateStatus_def Let_def
        console_error_def fetch_def classList_replace_def)
qed

theorem fetchStatus_failure_stopped_witness:
  "failed (status_r server_down)
   \<and> (\<exists>s'. fetchStatus server_down (updateStatus (JBool True) (JNum (Fin 59)) example_page) = Normal s'
           \<and> textContent (statusText s') = ''Stopped''
           \<and> textContent (toggleBtn s') = ''Start Agent''
           \<and> isRunning (currentState s') = JBool False
           \<and> (\<exists>e. console s' = console (updateStatus (JBool True) (JNum (Fin 59)) example_page) @ [(''Status fetch failed'', e)]))"
proof -
  have f: "failed (status_r server_down)" by (simp add: server_down_def)
  show ?thesis
    using f fetchStatus_failure_stopped [OF f] by blast
qed

text \<open>
  A body that parses to an object without the two fields is no failure: nothing is thrown,
  the page shows the agent as stopped, and the flag holds \<open>undefined\<close>.
\<close>

lemma fetchStatus_fields_absent:
  assumes "status_r srv = Body \<lparr>is_running = JUndefined, uptime = JUndefined\<rparr>"
  shows "\<exists>s'. fetchStatus srv s = Normal s'
           \<and> textContent (statusText s') = ''Stopped''
           \<and> textContent (toggleBtn s') = ''Start Agent''
           \<and> isRunning (currentState s') = JUndefined
           \<and> console s' = console s"
  by (simp add: fetchStatus_def fetchStatus_try_def assms updateStatus_def Let_def
      fetch_def classList_replace_def)

subsection \<open>Toggling the agent\<close>

lemma toggleAgent_unfold:
  "toggleAgent srv s =
     (let s1 = fetch POST (API_URL @ (if truthy (isRunning (currentState s)) then ''/control/stop''
                                      else ''/control/start'')) s
      in Normal (if post_rejects srv then console_error ''Toggle failed'' FetchRejected s1
                 else setTimeout CbFetchStatus 500 s1))"
  by (simp add: toggleAgent_def Let_def)

text \<open>
  C4. \<open>toggleAgent\<close> issues exactly one request, a \<open>POST\<close>: to \<open>/control/stop\<close> when the
  cached \<open>currentState.isRunning\<close> is truthy (so when it is \<open>true\<close>), to \<open>/control/start\<close>
  when it is falsy (so when it is \<open>false\<close>). The endpoint depends on the cached flag alone:
  no request asks the server for its status first, and the server's answers play no part.
\<close>

theorem toggleAgent_endpoint:
  "requests (state_of (toggleAgent srv s)) =
     requests s @ [(POST, if truthy (isRunning (currentState s))
                          then ''http://localhost:8000/control/stop''
                          else ''http://localhost:8000/control/start'')]
   \<and> (isRunning (currentState s) = JBool True \<longrightarrow>
        requests (state_of (toggleAgent srv s)) = requests s @ [(POST, ''http://localhost:8000/control/stop'')])
   \<and> (isRunning (currentState s) = JBool False \<longrightarrow>
        requests (state_of (toggleAgent srv s)) = requests s @ [(POST, ''http://localhost:8000/control/start'')])"
  by (simp add: toggleAgent_unfold Let_def fetch_def setTimeout_def console_error_def API_URL_def)

theorem toggleAgent_endpoint_witness:
  "isRunning (currentState (updateStatus (JBool True) (JNum (Fin 59)) example_page)) = JBool True
   \<and> requests (state_of (toggleAgent server_up (updateStatus (JBool True) (JNum (Fin 59)) example_page)))
       = [(POST, ''http://localhost:8000/control/stop'')]
   \<and> isRunning (currentState example_page) = JBool False
   \<and> requests (state_of (toggleAgent server_down example_page))
       = [(POST, ''http://localhost:8000/control/start'')]"
proof -
  have a: "isRunning (currentState (updateStatus (JBool True) (JNum (Fin 59)) example_page)) = JBool True"
    by (simp add: updateStatus_def Let_def)
  have b: "isRunning (currentState example_page) = JBool False"
    by (simp add: example_page_def initial_currentState_def)
  have c: "requests (updateStatus (JBool True) (JNum (Fin 59)) example_page) = []"
    by (simp add: updateStatus_def Let_def example_page_def)
  have d: "requests example_page = []"
    by (simp add: example_page_def)
  show ?thesis
    using a b c d
      toggleAgent_endpoint [of server_up "updateStatus (JBool True) (JNum (Fin 59)) example_page"]
      toggleAgent_endpoint [of server_down example_page]
    by simp
qed

text \<open>
  C8, as stated, fails: when the \<open>POST\<close> rejects, \<open>toggleAgent\<close> jumps to its \<open>catch\<close> and
  sets no timer.
\<close>

theorem toggleAgent_followup_counterexample:
  "Timeout CbFetchStatus 500 \<notin> set (timers (state_of (toggleAgent server_down example_page)))"
  by (simp add: toggleAgent_unfold Let_def fetch_def console_error_def server_down_def example_page_def)

text \<open>
  C8, amended. A call of \<open>toggleAgent\<close> whose \<open>POST\<close> settles schedules exactly one
  follow-up \<open>fetchStatus\<close>, 500 ms later, and logs nothing; a call whose \<open>POST\<close> rejects
  schedules nothing and logs \<open>Toggle failed\<close>.
\<close>

theorem toggleAgent_followup:
  "(\<not> post_rejects srv \<longrightarrow>
      timers (state_of (toggleAgent srv s)) = timers s @ [Timeout CbFetchStatus 500]
      \<and> console (state_of (toggleAgent srv s)) = console s)
   \<and> (post_rejects srv \<longrightarrow>
      timers (state_of (toggleAgent srv s)) = timers s
      \<and> console (state_of (toggleAgent srv s)) = console s @ [(''Toggle failed'', FetchRejected)])"
  by (simp add: toggleAgent_unfold Let_def fetch_def setTimeout_def console_error_def)

theorem toggleAgent_followup_witness:
  "\<not> post_rejects server_up
   \<and> timers (state_of (toggleAgent server_up example_page)) = [Timeout CbFetchStatus 500]
   \<and> post_rejects server_down
   \<and> timers (state_of (toggleAgent server_down example_page)) = []"
proof -
  have a: "\<not> post_rejects server_up" by (simp add: server_up_def)
  have b: "post_rejects server_down" by (simp add: server_down_def)
  have c: "timers example_page = []" by (simp add: example_page_def)
  show ?thesis
    using a b c toggleAgent_followup [of server_up example_page]
      toggleAgent_followup [of server_down example_page]
    by simp
qed

subsection \<open>Emails\<close>

text \<open>
  C5. \<open>renderEmails\<close> of the empty array sets the content of the emails table body to the
  empty string: no row.
\<close>

theorem renderEmails_empty:
  "innerHTML (emails_table_body (renderEmails [] s)) = []"
  by (simp add: renderEmails_def)

lemma fetchEmails_unfold:
  "fetchEmails args srv s =
     (let s1 = fetch GET (API_URL @ ''/emails?limit=50'') s in
      Normal (case body_of (emails_r srv) of
                Inl e \<Rightarrow> console_error ''Emails fetch failed'' e s1
              | Inr d \<Rightarrow> renderEmails d s1))"
  by (simp add: fetchEmails_def Let_def split: sum.splits)

text \<open>
  C7, as stated, fails: \<open>fetchEmails\<close> has no \<open>limit\<close> parameter. A call with the argument
  10 asks for \<open>limit=50\<close>, not for \<open>limit=10\<close>.
\<close>

theorem fetchEmails_limit_counterexample:
  "requests (state_of (fetchEmails [JNum (Fin 10)] server_up example_page))
     = requests example_page @ [(GET, ''http://localhost:8000/emails?limit=50'')]
   \<and> requests (state_of (fetchEmails [JNum (Fin 10)] server_up example_page))
     \<noteq> requests example_page @ [(GET, ''http://localhost:8000/emails?limit=10'')]"
  by (simp add: fetchEmails_unfold Let_def fetch_def console_error_def renderEmails_def
      API_URL_def split: sum.splits)

text \<open>
  C7, amended. Whatever its arguments, \<open>fetchEmails\<close> issues one \<open>GET\<close> to the emails
  endpoint with the fixed \<open>limit=50\<close>. When the answer is a list of emails, the content of
  the table body becomes the rows of that list and nothing else (what was there before is
  gone); when the request fails, the table body is left as it was.
\<close>

theorem fetchEmails_replaces_table:
  "requests (state_of (fetchEmails args srv s)) =
      requests s @ [(GET, ''http://localhost:8000/emails?limit=50'')]
   \<and> (\<forall>es. emails_r srv = Body es \<longrightarrow>
         innerHTML (emails_table_body (state_of (fetchEmails args srv s))) = concat (map email_row es))
   \<and> (failed (emails_r srv) \<longrightarrow>
         emails_table_body (state_of (fetchEmails args srv s)) = emails_table_body s)"
  by (cases "emails_r srv")
     (simp_all add: fetchEmails_unfold Let_def fetch_def console_error_def renderEmails_def API_URL_def)

theorem fetchEmails_replaces_table_witness:
  "emails_r server_up = Body [example_email]
   \<and> innerHTML (emails_table_body (state_of (fetchEmails [] server_up
        (renderEmails [example_email, example_email] example_page)))) = email_row example_email
   \<and> failed (emails_r server_down)
   \<and> emails_table_body (state_of (fetchEmails [] server_down example_page)) = emails_table_body example_page"
proof -
  have a: "emails_r server_up = Body [example_email]" by (simp add: server_up_def)
  have b: "failed (emails_r server_down)" by (simp add: server_down_def)
  show ?thesis
    using a b
      fetchEmails_replaces_table [of "[]" server_up "renderEmails [example_email, example_email] example_page"]
      fetchEmails_replaces_table [of "[]" server_down example_page]
    by simp
qed


lemma email_row_has_subject_cell: "\<exists>pre post. email_row e = pre @ subject_cell e @ post"
  unfolding email_row_def by (metis append.assoc)

text \<open>
  C10. For every email, the subject cell of its row is the first 40 characters of the
  subject (the whole subject when it has at most 40) followed by \<open>...\<close>, whatever the
  length of the subject; the cell is part of the row, and so of the table body that
  \<open>renderEmails\<close> writes for a list that holds the email.
\<close>

theorem renderEmails_subject_ellipsis:
  "subject_cell e = ''<td>'' @ take 40 (subject e) @ ''...</td>''
   \<and> (length (subject e) \<le> 40 \<longrightarrow> subject_cell e = ''<td>'' @ subject e @ ''...</td>'')
   \<and> (\<exists>pre post. email_row e = pre @ subject_cell e @ post)
   \<and> (e \<in> set es \<longrightarrow>
        (\<exists>pre post. innerHTML (emails_table_body (renderEmails es s)) = pre @ subject_cell e @ post))"
proof -
  have cell: "subject_cell e = ''<td>'' @ take 40 (subject e) @ ''...</td>''"
    by (simp add: subject_cell_def substring0_def)
  have row: "\<exists>pre post. email_row e = pre @ subject_cell e @ post"
    by (rule email_row_has_subject_cell)
  have table: "\<exists>pre post. innerHTML (emails_table_body (renderEmails es s)) = pre @ subject_cell e @ post"
    if "e \<in> set es"
  proof -
    from that obtain xs ys where es: "es = xs @ e # ys"
      by (meson split_list)
    from row obtain p q where pq: "email_row e = p @ subject_cell e @ q"
      by blast
    have "innerHTML (emails_table_body (renderEmails es s))
            = (concat (map email_row xs) @ p) @ subject_cell e @ (q @ concat (map email_row ys))"
      by (simp add: renderEmails_def es pq)
    then show ?thesis by blast
  qed
  from cell row table show ?thesis by simp
qed

theorem renderEmails_subject_ellipsis_witness:
  "length (subject example_email) \<le> 40
   \<and> subject_cell example_email = ''<td>Invoice...</td>''
   \<and> example_email \<in> set [example_email]
   \<and> (\<exists>pre post. innerHTML (emails_table_body (renderEmails [example_email] example_page))
         = pre @ subject_cell example_email @ post)"
proof -
  have a: "length (subject example_email) \<le> 40" by (simp add: example_email_def)
  have b: "subject example_email = ''Invoice''" by (simp add: example_email_def)
  have c: "example_email \<in> set [example_email]" by simp
  note inst = renderEmails_subject_ellipsis [of example_email "[example_email]" example_page]
  from inst a b have d: "subject_cell example_email = ''<td>Invoice...</td>''" by simp
  from inst c have e: "\<exists>pre post. innerHTML (emails_table_body (renderEmails [example_email] example_page))
         = pre @ subject_cell example_email @ post" by blast
  from a c d e show ?thesis by blast
qed


subsection \<open>The cache fields of the state\<close>

lemma currentState_updateStatus:
  "currentState (updateStatus running up s) = (currentState s)\<lparr>isRunning := running\<rparr>"
  by (simp add: updateStatus_def Let_def)

lemma cache_fetchStatus: "cache_fields (state_of (fetchStatus srv s)) = cache_fields s"
  by (cases "status_r srv")
     (simp_all add: cache_fields_def fetchStatus_def fetchStatus_try_def Let_def
        currentState_updateStatus console_error_def fetch_def)

lemma currentState_fetchStats:
  "currentState (state_of (fetchStats srv s)) = currentState s"
  by (cases "stats_r srv") (simp_all add: fetchStats_def Let_def console_error_def fetch_def)

lemma currentState_fetchEmails:
  "currentState (state_of (fetchEmails args srv s)) = currentState s"
  by (cases "emails_r srv")
     (simp_all add: fetchEmails_def Let_def console_error_def fetch_def renderEmails_def)

lemma currentState_fetchLogs:
  "currentState (state_of (fetchLogs args srv s)) = currentState s"
  by (cases "logs_r srv")
     (simp_all add: fetchLogs_def Let_def console_error_def fetch_def renderLogs_def)

lemma currentState_toggleAgent:
  "currentState (state_of (toggleAgent srv s)) = currentState s"
  by (simp add: toggleAgent_def Let_def console_error_def fetch_def setTimeout_def)

lemma currentState_node_add_class:
  "currentState (node_add_class c n s) = currentState s"
  by (cases n) simp_all

lemma currentState_navClick:
  "currentState (state_of (navClick i srv s)) = currentState s"
  by (simp add: navClick_def Let_def detached_def currentState_fetchEmails currentState_fetchLogs
      currentState_node_add_class split: option.splits)

lemma currentState_refreshClick:
  "currentState (state_of (refreshClick srv s)) = currentState s"
  by (simp add: refreshClick_def Let_def detached_def currentState_fetchEmails
      currentState_fetchLogs currentState_fetchStats)

lemma cache_domContentLoaded:
  "cache_fields (state_of (domContentLoaded srv s)) = cache_fields s"
proof -
  have "cache_fields (state_of (domContentLoaded srv s)) = cache_fields (state_of (fetchStatus srv s))"
    by (simp add: cache_fields_def domContentLoaded_def Let_def detached_def setInterval_def
        currentState_fetchStats)
  then show ?thesis by (simp add: cache_fetchStatus)
qed

lemma run_keeps_currentState:
  "\<not> calls_updateStatus op \<Longrightarrow> currentState (run (op, srv) s) = currentState s"
  by (cases op)
     (simp_all add: currentState_fetchStats currentState_fetchEmails currentState_fetchLogs
        currentState_toggleAgent currentState_navClick currentState_refreshClick)

lemma cache_run: "cache_fields (run (op, srv) s) = cache_fields s"
proof (cases "calls_updateStatus op")
  case False
  then show ?thesis by (simp add: cache_fields_def run_keeps_currentState)
next
  case True
  then show ?thesis
    by (cases op)
       (simp_all add: cache_fetchStatus cache_domContentLoaded,
        simp add: cache_fields_def currentState_updateStatus)
qed

lemma cache_run_all: "cache_fields (run_all ops s) = cache_fields s"
  unfolding run_all_def
proof (induction ops arbitrary: s)
  case Nil
  show ?case by simp
next
  case (Cons a ops)
  obtain op srv where a: "a = (op, srv)" by (cases a)
  show ?case by (simp add: a Cons.IH cache_run)
qed

text \<open>
  C9. No operation of the client changes \<open>stats\<close>, \<open>emails\<close> or \<open>logs\<close> of \<open>currentState\<close>:
  after any sequence of operations from the initial state they are still \<open>{}\<close>, \<open>[]\<close> and
  \<open>[]\<close>. Only \<open>isRunning\<close> changes, and only in \<open>updateStatus\<close>: an operation that does not
  call it leaves \<open>isRunning\<close> as it was.
\<close>

theorem currentState_cache_fields_unchanged:
  "stats (currentState (run (op, srv) s)) = stats (currentState s)
   \<and> emails (currentState (run (op, srv) s)) = emails (currentState s)
   \<and> logs (currentState (run (op, srv) s)) = logs (currentState s)
   \<and> (\<not> calls_updateStatus op \<longrightarrow>
        isRunning (currentState (run (op, srv) s)) = isRunning (currentState s))
   \<and> (currentState s = initial_currentState \<longrightarrow>
        stats (currentState (run_all ops s)) = []
        \<and> emails (currentState (run_all ops s)) = []
        \<and> logs (currentState (run_all ops s)) = [])"
proof -
  have one: "cache_fields (run (op, srv) s) = cache_fields s"
    by (rule cache_run)
  have many: "cache_fields (run_all ops s) = cache_fields s"
    by (rule cache_run_all)
  have flag: "isRunning (currentState (run (op, srv) s)) = isRunning (currentState s)"
    if "\<not> calls_updateStatus op"
    using that by (simp add: run_keeps_currentState)
  from one many flag show ?thesis
    by (simp add: cache_fields_def initial_currentState_def)
qed

theorem currentState_cache_fields_unchanged_witness:
  "\<not> calls_updateStatus OpToggleAgent
   \<and> isRunning (currentState (run (OpToggleAgent, server_up) example_page)) = JBool False
   \<and> currentState example_page = initial_currentState
   \<and> stats (currentState (run_all example_ops example_page)) = []
   \<and> emails (currentState (run_all example_ops example_page)) = []
   \<and> logs (currentState (run_all example_ops example_page)) = []"
proof -
  have a: "\<not> calls_updateStatus OpToggleAgent" by simp
  have b: "currentState example_page = initial_currentState" by (simp add: example_page_def)
  have c: "isRunning (currentState example_page) = JBool False"
    by (simp add: b initial_currentState_def)
  from a b c currentState_cache_fields_unchanged [of OpToggleAgent server_up example_page example_ops]
  show ?thesis by simp
qed


subsection \<open>Navigation\<close>

lemma has_class_add: "has_class c (classList_add c el)"
  by (simp add: has_class_def classList_add_def)

lemma not_has_class_remove: "\<not> has_class c (classList_remove c el)"
  by (simp add: has_class_def classList_remove_def)

lemma classList_add_frame:
  "textContent (classList_add c el) = textContent el"
  "dataset_target (classList_add c el) = dataset_target el"
  by (simp_all add: classList_add_def)

lemma classList_remove_frame:
  "textContent (classList_remove c el) = textContent el"
  "dataset_target (classList_remove c el) = dataset_target el"
  by (simp_all add: classList_remove_def)

lemma active_count_none:
  "\<forall>x \<in> set xs. \<not> has_class ''active'' x \<Longrightarrow> active_count xs = 0"
  by (simp add: active_count_def)

lemma active_count_update:
  "\<forall>x \<in> set xs. \<not> has_class ''active'' x \<Longrightarrow> i < length xs \<Longrightarrow> has_class ''active'' y
     \<Longrightarrow> active_count (xs[i := y]) = 1"
proof (induction xs arbitrary: i)
  case Nil
  then show ?case by simp
next
  case (Cons x xs)
  show ?case
  proof (cases i)
    case 0
    with Cons.prems show ?thesis by (simp add: active_count_def)
  next
    case (Suc j)
    with Cons.prems have "active_count (xs[j := y]) = 1"
      by (intro Cons.IH) simp_all
    with Suc Cons.prems show ?thesis by (simp add: active_count_def)
  qed
qed

text \<open>What the handler does to a list of elements: clear the class everywhere, set it at one place.\<close>

lemma active_count_switch:
  assumes "i < length xs"
  shows "active_count ((map (classList_remove ''active'') xs)
           [i := classList_add ''active'' (map (classList_remove ''active'') xs ! i)]) = 1"
proof (rule active_count_update)
  show "\<forall>x \<in> set (map (classList_remove ''active'') xs). \<not> has_class ''active'' x"
    by (simp add: not_has_class_remove)
  show "i < length (map (classList_remove ''active'') xs)" using assms by simp
  show "has_class ''active'' (classList_add ''active'' (map (classList_remove ''active'') xs ! i))"
    by (rule has_class_add)
qed

lemma switch_text:
  "map textContent ((map (classList_remove c) xs)[i := classList_add c (map (classList_remove c) xs ! i)])
     = map textContent xs"
proof (rule nth_equalityI)
  fix j
  assume "j < length (map textContent ((map (classList_remove c) xs)
                [i := classList_add c (map (classList_remove c) xs ! i)]))"
  then have j: "j < length xs" by simp
  then show "map textContent ((map (classList_remove c) xs)
                [i := classList_add c (map (classList_remove c) xs ! i)]) ! j
             = map textContent xs ! j"
    by (cases "j = i") (simp_all add: classList_add_frame classList_remove_frame)
qed simp

lemma switch_target:
  "map dataset_target ((map (classList_remove c) xs)[i := classList_add c (map (classList_remove c) xs ! i)])
     = map dataset_target xs"
proof (rule nth_equalityI)
  fix j
  assume "j < length (map dataset_target ((map (classList_remove c) xs)
                [i := classList_add c (map (classList_remove c) xs ! i)]))"
  then have j: "j < length xs" by simp
  then show "map dataset_target ((map (classList_remove c) xs)
                [i := classList_add c (map (classList_remove c) xs ! i)]) ! j
             = map dataset_target xs ! j"
    by (cases "j = i") (simp_all add: classList_add_frame classList_remove_frame)
qed simp

lemma nav_fetchEmails:
  "navItems (state_of (fetchEmails args srv s)) = navItems s"
  "pages (state_of (fetchEmails args srv s)) = pages s"
  "pageTitle (state_of (fetchEmails args srv s)) = pageTitle s"
  "byId (state_of (fetchEmails args srv s)) = byId s"
  by (cases "emails_r srv";
      simp add: fetchEmails_def Let_def console_error_def fetch_def renderEmails_def)+

lemma nav_fetchLogs:
  "navItems (state_of (fetchLogs args srv s)) = navItems s"
  "pages (state_of (fetchLogs args srv s)) = pages s"
  "pageTitle (state_of (fetchLogs args srv s)) = pageTitle s"
  "byId (state_of (fetchLogs args srv s)) = byId s"
  by (cases "logs_r srv";
      simp add: fetchLogs_def Let_def console_error_def fetch_def renderLogs_def)+

text \<open>The state after a click on an item whose target is a page section.\<close>

lemma navClick_to_page:
  assumes i: "i < length (navItems s)"
    and t: "dataset_target (navItems s ! i) = Some t"
    and k: "byId s t = Some (PageNode k)"
  shows "\<exists>s'. navClick i srv s = Normal s'
           \<and> navItems s' = (map (classList_remove ''active'') (navItems s))
                [i := classList_add ''active'' (map (classList_remove ''active'') (navItems s) ! i)]
           \<and> pages s' = (map (classList_remove ''active'') (pages s))
                [k := classList_add ''active'' (map (classList_remove ''active'') (pages s) ! k)]
           \<and> textContent (pageTitle s') = textContent (navItems s ! i)
           \<and> byId s' = byId s"
  using i t k
  by (simp add: navClick_def Let_def detached_def nav_fetchEmails nav_fetchLogs
      classList_add_frame classList_remove_frame)

lemma targets_page_cong:
  "byId s' = byId s \<Longrightarrow> length (pages s') = length (pages s)
     \<Longrightarrow> dataset_target y = dataset_target x \<Longrightarrow> targets_page s' y = targets_page s x"
  by (simp split: option.splits node.splits)

lemma targets_pageD:
  assumes "targets_page s item"
  shows "\<exists>t k. dataset_target item = Some t \<and> byId s t = Some (PageNode k) \<and> k < length (pages s)"
proof (cases "dataset_target item")
  case None
  with assms show ?thesis by simp
next
  case (Some t)
  show ?thesis
  proof (cases "byId s t")
    case None
    with Some assms show ?thesis by simp
  next
    case (Some n)
    with \<open>dataset_target item = Some t\<close> assms show ?thesis
      by (cases n) simp_all
  qed
qed

lemma nav_wf_nth:
  "nav_wf s \<Longrightarrow> i < length (navItems s)
     \<Longrightarrow> \<exists>t k. dataset_target (navItems s ! i) = Some t \<and> byId s t = Some (PageNode k)
               \<and> k < length (pages s)"
  by (rule targets_pageD) (simp add: nav_wf_def list_all_length)

lemma navClick_step:
  assumes wf: "nav_wf s" and i: "i < length (navItems s)"
  shows "\<exists>s'. navClick i srv s = Normal s'
           \<and> active_count (navItems s') = 1
           \<and> has_class ''active'' (navItems s' ! i)
           \<and> active_count (pages s') = 1
           \<and> textContent (pageTitle s') = textContent (navItems s ! i)
           \<and> nav_wf s'
           \<and> map textContent (navItems s') = map textContent (navItems s)"
proof -
  from nav_wf_nth [OF wf i] obtain t k
    where t: "dataset_target (navItems s ! i) = Some t"
      and k: "byId s t = Some (PageNode k)"
      and kl: "k < length (pages s)"
    by blast
  from navClick_to_page [OF i t k, of srv] obtain s'
    where run: "navClick i srv s = Normal s'"
      and nav: "navItems s' = (map (classList_remove ''active'') (navItems s))
                [i := classList_add ''active'' (map (classList_remove ''active'') (navItems s) ! i)]"
      and pg: "pages s' = (map (classList_remove ''active'') (pages s))
                [k := classList_add ''active'' (map (classList_remove ''active'') (pages s) ! k)]"
      and title: "textContent (pageTitle s') = textContent (navItems s ! i)"
      and ids: "byId s' = byId s"
    by blast
  have one_nav: "active_count (navItems s') = 1"
    unfolding nav using i by (rule active_count_switch)
  have at_i: "has_class ''active'' (navItems s' ! i)"
    using i by (simp add: nav has_class_add)
  have one_page: "active_count (pages s') = 1"
    unfolding pg using kl by (rule active_count_switch)
  have texts: "map textContent (navItems s') = map textContent (navItems s)"
    unfolding nav by (rule switch_text)
  have targets: "map dataset_target (navItems s') = map dataset_target (navItems s)"
    unfolding nav by (rule switch_target)
  have len: "length (navItems s') = length (navItems s)"
    by (simp add: nav)
  have plen: "length (pages s') = length (pages s)"
    by (simp add: pg)
  have wf': "nav_wf s'"
    unfolding nav_wf_def list_all_length
  proof (intro allI impI)
    fix j
    assume j: "j < length (navItems s')"
    then have js: "j < length (navItems s)" using len by simp
    have "dataset_target (navItems s' ! j) = map dataset_target (navItems s') ! j"
      using j by simp
    also have "\<dots> = dataset_target (navItems s ! j)"
      using js by (simp add: targets)
    finally have same: "dataset_target (navItems s' ! j) = dataset_target (navItems s ! j)" .
    have "targets_page s (navItems s ! j)"
      using wf js by (simp add: nav_wf_def list_all_length)
    then show "targets_page s' (navItems s' ! j)"
      using targets_page_cong [OF ids plen same] by simp
  qed
  from run one_nav at_i one_page title wf' texts show ?thesis by blast
qed

text \<open>
  Without that markup the handler does not get there: a target that no element carries
  makes it throw after it has cleared every page section.
\<close>

lemma navClick_unknown_target:
  assumes "i < length (navItems s)"
    and "byId s (id_string (dataset_target (navItems s ! i))) = None"
  shows "\<exists>s'. navClick i srv s = Throw TypeError s' \<and> active_count (pages s') = 0"
  using assms
  by (simp add: navClick_def Let_def classList_add_frame classList_remove_frame
      active_count_none not_has_class_remove)

text \<open>
  C6. On a page whose nav items each target a page section, after every click of a
  sequence of clicks on nav items the handler ends normally, exactly one nav item (the
  clicked one) and exactly one page section carry the class \<open>active\<close>, and the page title
  is the text of the clicked item.
\<close>

theorem navClicks_exactly_one_active:
  assumes "nav_wf s" and "cs \<noteq> []" and "\<forall>c \<in> set cs. fst c < length (navItems s)"
  shows "\<exists>s'. navClicks cs s = Normal s'
           \<and> active_count (navItems s') = 1
           \<and> has_class ''active'' (navItems s' ! fst (last cs))
           \<and> active_count (pages s') = 1
           \<and> textContent (pageTitle s') = textContent (navItems s ! fst (last cs))"
  using assms
proof (induction cs arbitrary: s)
  case Nil
  then show ?case by simp
next
  case (Cons c cs)
  obtain i srv where c: "c = (i, srv)" by (cases c)
  from Cons.prems c have i: "i < length (navItems s)" by simp
  from navClick_step [OF Cons.prems(1) i, of srv] obtain s1
    where run: "navClick i srv s = Normal s1"
      and one_nav: "active_count (navItems s1) = 1"
      and at_i: "has_class ''active'' (navItems s1 ! i)"
      and one_page: "active_count (pages s1) = 1"
      and title: "textContent (pageTitle s1) = textContent (navItems s ! i)"
      and wf1: "nav_wf s1"
      and texts: "map textContent (navItems s1) = map textContent (navItems s)"
    by blast
  show ?case
  proof (cases "cs = []")
    case True
    with c run one_nav at_i one_page title show ?thesis by simp
  next
    case False
    from texts have len: "length (navItems s1) = length (navItems s)"
      by (rule map_eq_imp_length_eq)
    from Cons.prems(3) len have idx: "\<forall>c \<in> set cs. fst c < length (navItems s1)" by simp
    from Cons.IH [OF wf1 False idx] obtain s'
      where run': "navClicks cs s1 = Normal s'"
        and a: "active_count (navItems s') = 1"
        and b: "has_class ''active'' (navItems s' ! fst (last cs))"
        and d: "active_count (pages s') = 1"
        and e: "textContent (pageTitle s') = textContent (navItems s1 ! fst (last cs))"
      by blast
    from False Cons.prems(3) have l: "fst (last cs) < length (navItems s)" by simp
    have "textContent (navItems s1 ! fst (last cs)) = map textContent (navItems s1) ! fst (last cs)"
      using l len by simp
    also have "\<dots> = textContent (navItems s ! fst (last cs))"
      using l by (simp add: texts)
    finally have f: "textContent (navItems s1 ! fst (last cs)) = textContent (navItems s ! fst (last cs))" .
    from c run run' a b d e f False show ?thesis by (cases cs) simp_all
  qed
qed

theorem navClicks_exactly_one_active_witness:
  "nav_wf example_page \<and> example_clicks \<noteq> []
   \<and> list_all (\<lambda>c. fst c < length (navItems example_page)) example_clicks
   \<and> (\<exists>s'. navClicks example_clicks example_page = Normal s'
         \<and> active_count (navItems s') = 1
         \<and> has_class ''active'' (navItems s' ! 1)
         \<and> active_count (pages s') = 1
         \<and> textContent (pageTitle s') = ''Emails'')"
proof -
  have a: "nav_wf example_page"
    by (simp add: nav_wf_def example_page_def elem_def page_index_def)
  have b: "example_clicks \<noteq> []"
    by (simp add: example_clicks_def)
  have c: "\<forall>c \<in> set example_clicks. fst c < length (navItems example_page)"
    by (simp add: example_clicks_def example_page_def)
  have d: "fst (last example_clicks) = 1"
    by (simp add: example_clicks_def)
  have e: "textContent (navItems example_page ! 1) = ''Emails''"
    by (simp add: example_page_def elem_def)
  from navClicks_exactly_one_active [OF a b c] d e
  have "\<exists>s'. navClicks example_clicks example_page = Normal s'
         \<and> active_count (navItems s') = 1
         \<and> has_class ''active'' (navItems s' ! 1)
         \<and> active_count (pages s') = 1
         \<and> textContent (pageTitle s') = ''Emails''"
    by simp
  with a b c show ?thesis by (simp add: list_all_iff)
qed

end
